theory Spec2Isabelle
  imports Main
begin

section \<open>Data model of the data-access state store (AppContext)\<close>

text \<open>
  The value a failed query of the persistence client carries in the \<open>error\<close> component
  of its answer. The store never inspects it: it is thrown or logged as it is.
\<close>

datatype error = ServiceError string

text \<open>
  Awaiting a query yields \<open>{ data, error }\<close>, where exactly one of the two is set:
  \<open>Inl error\<close> is an answer with \<open>error\<close> set (what \<open>if (error)\<close> tests),
  \<open>Inr data\<close> an answer with \<open>data\<close>.
\<close>

type_synonym 'a response = "error + 'a"

text \<open>
  A field declared \<open>f?: string | null\<close>: it may be left out of the object
  (\<open>Undefined\<close>), be \<open>null\<close>, or hold a value.
\<close>

datatype 'a optional = Undefined | Null | Value 'a

text \<open>The nullish coalescing operator \<open>a ?? b\<close>.\<close>

definition nullish :: "'a optional \<Rightarrow> 'a optional \<Rightarrow> 'a optional" where
  "nullish a b = (case a of Undefined \<Rightarrow> b | Null \<Rightarrow> b | Value v \<Rightarrow> Value v)"

subsection \<open>HR entries\<close>

text \<open>
  \<open>hr_data\<close> is what remains of the submitted entry once \<open>questions\<close> is taken out
  (\<open>const { questions, ...hrData } = entry\<close>); \<open>hr_draft\<close> is the submitted entry
  (\<open>Omit<HREntry, 'id' | 'created_at' | 'questions'> & { questions: string[] }\<close>);
  \<open>hr_row\<close> is a row of table \<open>hr_entries\<close>, with the \<open>id\<close> and \<open>created_at\<close> the
  service assigned.
\<close>

record hr_data =
  da_name :: string
  company_name :: string
  hr_name :: string
  hr_contact :: string

record hr_draft = hr_data +
  draft_questions :: "string list"

record hr_row = hr_data +
  hr_id :: string
  hr_created_at :: string

subsection \<open>Questions\<close>

text \<open>
  \<open>question_draft\<close> is \<open>Omit<Question, 'id' | 'created_at'>\<close>; \<open>question_insert\<close> is a
  row sent to table \<open>questions\<close>, whose \<open>hr_entry_id\<close> column is \<open>None\<close> when the row
  sent does not carry it; \<open>question_row\<close> is a row of the table.
\<close>

record question_draft =
  q_text :: string
  topic :: string
  asked_by :: string

record question_insert = question_draft +
  hr_entry_id :: "string option"

record question_row = question_insert +
  q_id :: string
  q_created_at :: string

text \<open>
  The in-memory HR entry: the row together with the derived \<open>questions\<close> field that
  \<open>fetchHREntries\<close> attaches (\<open>{ ...entry, questions: ... }\<close>).
\<close>

record HREntry = hr_row +
  hr_questions :: "question_row list"

subsection \<open>Answers and jobs\<close>

record answer_draft =
  question_id :: string
  answer_text :: string
  answered_by :: string

record answer_row = answer_draft +
  a_id :: string
  a_created_at :: string

record job_draft =
  j_da_name :: string
  j_company_name :: string
  phone_number :: "string optional"
  job_link :: string
  file_name :: "string optional"

record job_row = job_draft +
  j_id :: string
  j_created_at :: string

subsection \<open>State of the provider\<close>

text \<open>
  The five \<open>useState\<close> cells of \<open>AppProvider\<close>, and what the provider does to the
  page around it: the calls of \<open>console.error\<close> (message and error), the calls of
  \<open>window.alert\<close>, and the rejections of promises nobody handles.
\<close>

record store =
  hrEntries :: "HREntry list"
  questions :: "question_row list"
  answers :: "answer_row list"
  jobs :: "job_row list"
  loading :: bool
  console :: "(string \<times> error) list"
  alerts :: "string list"
  unhandled :: "error list"

definition initial_store :: store where
  "initial_store =
     \<lparr>hrEntries = [], questions = [], answers = [], jobs = [], loading = True,
      console = [], alerts = [], unhandled = []\<rparr>"

section \<open>The Persistence Service\<close>

text \<open>
  Modelled from the spec: the persistence client \<open>supabase\<close> imported from
  \<open>../lib/supabase\<close> and the hosted store behind it, which are not part of the sources.
  The spec gives its contract as \<open>insert(table, rows) -> insertedRows | error\<close> on the
  tables \<open>hr_entries\<close>, \<open>questions\<close>, \<open>answers\<close> and \<open>jobs\<close>, with \<open>id\<close> and
  \<open>created_at\<close> always assigned by the service. A table is the list of its rows in
  insertion order. Whether an insert fails, and which \<open>id\<close> and \<open>created_at\<close> it assigns,
  is the service's choice and an input of the model: \<open>Inl e\<close> for a failure, which
  leaves the table as it was, \<open>Inr\<close> with the assigned pair for a success, which
  stores the rows as they were sent.
\<close>

record db =
  hr_entries_table :: "hr_row list"
  questions_table :: "question_row list"
  answers_table :: "answer_row list"
  jobs_table :: "job_row list"

text \<open>
  Modelled from the spec: the \<open>id\<close> and \<open>created_at\<close> the service assigns to a row it
  inserts, and the stored row they give, which holds the fields sent as they were sent.
\<close>

type_synonym stamp = "string \<times> string"

definition stamp_hr :: "stamp \<Rightarrow> hr_data \<Rightarrow> hr_row" where
  "stamp_hr s r = hr_data.extend r (hr_row.fields (fst s) (snd s))"

definition stamp_question :: "stamp \<Rightarrow> question_insert \<Rightarrow> question_row" where
  "stamp_question s r = question_insert.extend r (question_row.fields (fst s) (snd s))"

definition stamp_answer :: "stamp \<Rightarrow> answer_draft \<Rightarrow> answer_row" where
  "stamp_answer s r = answer_draft.extend r (answer_row.fields (fst s) (snd s))"

definition stamp_job :: "stamp \<Rightarrow> job_draft \<Rightarrow> job_row" where
  "stamp_job s r = job_draft.extend r (job_row.fields (fst s) (snd s))"

text \<open>
  Modelled from the spec: \<open>supabase.from(t).insert([row]).select().single()\<close>, the
  insert of one row that asks for the inserted row back, for each of the four tables.
\<close>

definition insert_hr_entry :: "stamp response \<Rightarrow> hr_data \<Rightarrow> db \<Rightarrow> hr_row response \<times> db" where
  "insert_hr_entry outcome row d =
     (case outcome of
        Inl e \<Rightarrow> (Inl e, d)
      | Inr s \<Rightarrow> (Inr (stamp_hr s row),
                  d\<lparr>hr_entries_table := hr_entries_table d @ [stamp_hr s row]\<rparr>))"

definition insert_question :: "stamp response \<Rightarrow> question_insert \<Rightarrow> db \<Rightarrow> question_row response \<times> db" where
  "insert_question outcome row d =
     (case outcome of
        Inl e \<Rightarrow> (Inl e, d)
      | Inr s \<Rightarrow> (Inr (stamp_question s row),
                  d\<lparr>questions_table := questions_table d @ [stamp_question s row]\<rparr>))"

definition insert_answer :: "stamp response \<Rightarrow> answer_draft \<Rightarrow> db \<Rightarrow> answer_row response \<times> db" where
  "insert_answer outcome row d =
     (case outcome of
        Inl e \<Rightarrow> (Inl e, d)
      | Inr s \<Rightarrow> (Inr (stamp_answer s row),
                  d\<lparr>answers_table := answers_table d @ [stamp_answer s row]\<rparr>))"

definition insert_job :: "stamp response \<Rightarrow> job_draft \<Rightarrow> db \<Rightarrow> job_row response \<times> db" where
  "insert_job outcome row d =
     (case outcome of
        Inl e \<Rightarrow> (Inl e, d)
      | Inr s \<Rightarrow> (Inr (stamp_job s row),
                  d\<lparr>jobs_table := jobs_table d @ [stamp_job s row]\<rparr>))"

text \<open>
  Modelled from the spec: \<open>supabase.from('questions').insert(rows)\<close>, the insert of a
  batch of rows that asks for nothing back. The service's choice on success is the pair
  it assigns to the row at each position of the batch.
\<close>

definition insert_questions :: "(nat \<Rightarrow> stamp) response \<Rightarrow> question_insert list \<Rightarrow> db \<Rightarrow> unit response \<times> db" where
  "insert_questions outcome rows d =
     (case outcome of
        Inl e \<Rightarrow> (Inl e, d)
      | Inr g \<Rightarrow> (Inr (),
                  d\<lparr>questions_table :=
                      questions_table d @ map (\<lambda>(i, r). stamp_question (g i) r) (enumerate 0 rows)\<rparr>))"

section \<open>Reads: the full reload\<close>

text \<open>
  A read leaves the service as it is; what it answers is an input of the model. A full
  reload awaits five selects: the two of \<open>fetchHREntries\<close> (table \<open>hr_entries\<close>, then
  table \<open>questions\<close>), and one each of \<open>fetchQuestions\<close>, \<open>fetchAnswers\<close> and
  \<open>fetchJobs\<close>.
\<close>

record responses =
  hr_select :: "hr_row list response"
  hr_questions_select :: "question_row list response"
  questions_select :: "question_row list response"
  answers_select :: "answer_row list response"
  jobs_select :: "job_row list response"

text \<open>\<open>hrEntries.map(entry => ({ ...entry, questions: questions.filter(...) }))\<close>\<close>

definition attach_questions :: "question_row list \<Rightarrow> hr_row \<Rightarrow> HREntry" where
  "attach_questions qs entry =
     hr_row.extend entry (HREntry.fields (filter (\<lambda>q. hr_entry_id q = Some (hr_id entry)) qs))"

definition fetchHREntries :: "responses \<Rightarrow> store \<Rightarrow> unit response \<times> store" where
  "fetchHREntries rs w =
     (case hr_select rs of
        Inl hrError \<Rightarrow> (Inl hrError, w)
      | Inr hrRows \<Rightarrow>
          (case hr_questions_select rs of
             Inl qError \<Rightarrow> (Inl qError, w)
           | Inr qRows \<Rightarrow> (Inr (), w\<lparr>hrEntries := map (attach_questions qRows) hrRows\<rparr>)))"

text \<open>
  The three reads below catch their error: they log it and return, so their promise is
  never rejected. On an answer with rows, \<open>data || []\<close> is \<open>data\<close>.
\<close>

definition fetchQuestions :: "responses \<Rightarrow> store \<Rightarrow> unit response \<times> store" where
  "fetchQuestions rs w =
     (case questions_select rs of
        Inl e \<Rightarrow> (Inr (), w\<lparr>console := console w @ [(''Error fetching questions:'', e)]\<rparr>)
      | Inr data \<Rightarrow> (Inr (), w\<lparr>questions := data\<rparr>))"

definition fetchAnswers :: "responses \<Rightarrow> store \<Rightarrow> unit response \<times> store" where
  "fetchAnswers rs w =
     (case answers_select rs of
        Inl e \<Rightarrow> (Inr (), w\<lparr>console := console w @ [(''Error fetching answers:'', e)]\<rparr>)
      | Inr data \<Rightarrow> (Inr (), w\<lparr>answers := data\<rparr>))"

definition fetchJobs :: "responses \<Rightarrow> store \<Rightarrow> unit response \<times> store" where
  "fetchJobs rs w =
     (case jobs_select rs of
        Inl e \<Rightarrow> (Inr (), w\<lparr>console := console w @ [(''Error fetching jobs:'', e)]\<rparr>)
      | Inr data \<Rightarrow> (Inr (), w\<lparr>jobs := data\<rparr>))"

text \<open>
  \<open>Promise.all\<close> over tasks that each touch the store once, when they settle. The list
  gives the tasks in the order in which they settle. No task is cancelled: all of them
  run. The result is the first rejection in that order, and \<open>Inr ()\<close> when there is none.
\<close>

fun promise_all :: "(store \<Rightarrow> unit response \<times> store) list \<Rightarrow> store \<Rightarrow> unit response \<times> store" where
  "promise_all [] w = (Inr (), w)"
| "promise_all (t # ts) w =
     (case t w of
        (Inl e, w1) \<Rightarrow> (Inl e, snd (promise_all ts w1))
      | (Inr u, w1) \<Rightarrow> promise_all ts w1)"

text \<open>
  The four reads of \<open>refreshData\<close>. They are started together and settle in an order
  the program does not decide: a schedule is that order, each read once.
\<close>

datatype read = ReadHREntries | ReadQuestions | ReadAnswers | ReadJobs

definition run_read :: "responses \<Rightarrow> read \<Rightarrow> store \<Rightarrow> unit response \<times> store" where
  "run_read rs b =
     (case b of
        ReadHREntries \<Rightarrow> fetchHREntries rs
      | ReadQuestions \<Rightarrow> fetchQuestions rs
      | ReadAnswers \<Rightarrow> fetchAnswers rs
      | ReadJobs \<Rightarrow> fetchJobs rs)"

definition schedule :: "read list \<Rightarrow> bool" where
  "schedule sched =
     (distinct sched \<and> set sched = {ReadHREntries, ReadQuestions, ReadAnswers, ReadJobs})"

definition refreshData :: "read list \<Rightarrow> responses \<Rightarrow> store \<Rightarrow> unit response \<times> store" where
  "refreshData sched rs w =
     (case promise_all (map (run_read rs) sched) (w\<lparr>loading := True\<rparr>) of
        (Inl e, w1) \<Rightarrow> (Inl e, w1)
      | (Inr u, w1) \<Rightarrow> (Inr (), w1\<lparr>loading := False\<rparr>))"

text \<open>
  The mount effect \<open>useEffect(() => { refreshData(); }, [])\<close>, the only caller of
  \<open>refreshData\<close> in the sources: it drops the promise, so a rejection is handled by
  nobody.
\<close>

definition mount :: "read list \<Rightarrow> responses \<Rightarrow> store \<Rightarrow> store" where
  "mount sched rs w =
     (case refreshData sched rs w of
        (Inl e, w1) \<Rightarrow> w1\<lparr>unhandled := unhandled w1 @ [e]\<rparr>
      | (Inr u, w1) \<Rightarrow> w1)"

section \<open>Writes: the four mutation operations\<close>

definition addHREntry ::
  "stamp response \<Rightarrow> (nat \<Rightarrow> stamp) response \<Rightarrow> hr_draft \<Rightarrow> store \<Rightarrow> db \<Rightarrow> unit response \<times> store \<times> db" where
  "addHREntry hrOutcome qOutcome entry w d =
     (case insert_hr_entry hrOutcome (hr_data.truncate entry) d of
        (Inl hrError, d1) \<Rightarrow> (Inl hrError, w, d1)
      | (Inr hrEntry, d1) \<Rightarrow>
          if length (draft_questions entry) > 0 then
            (case insert_questions qOutcome
                    (map (\<lambda>q. \<lparr>q_text = q, topic = '''', asked_by = '''',
                                hr_entry_id = Some (hr_id hrEntry)\<rparr>)
                         (draft_questions entry)) d1 of
               (Inl qError, d2) \<Rightarrow> (Inl qError, w, d2)
             | (Inr u, d2) \<Rightarrow> (Inr (), w, d2))
          else (Inr (), w, d1))"

text \<open>
  \<open>addQuestion\<close> sends the draft as it is: the row carries no \<open>hr_entry_id\<close>.
\<close>

definition addQuestion ::
  "stamp response \<Rightarrow> question_draft \<Rightarrow> store \<Rightarrow> db \<Rightarrow> unit response \<times> store \<times> db" where
  "addQuestion outcome question w d =
     (case insert_question outcome (question_draft.extend question (question_insert.fields None)) d of
        (Inl e, d1) \<Rightarrow>
          (Inl e, w\<lparr>console := console w @ [(''Error adding question:'', e)]\<rparr>, d1)
      | (Inr data, d1) \<Rightarrow> (Inr (), w\<lparr>questions := data # questions w\<rparr>, d1))"

definition addAnswer ::
  "stamp response \<Rightarrow> answer_draft \<Rightarrow> store \<Rightarrow> db \<Rightarrow> unit response \<times> store \<times> db" where
  "addAnswer outcome answer w d =
     (case insert_answer outcome answer d of
        (Inl e, d1) \<Rightarrow>
          (Inl e, w\<lparr>console := console w @ [(''Error adding answer:'', e)]\<rparr>, d1)
      | (Inr data, d1) \<Rightarrow> (Inr (), w\<lparr>answers := data # answers w\<rparr>, d1))"

definition jobToInsert :: "job_draft \<Rightarrow> job_draft" where
  "jobToInsert job =
     \<lparr>j_da_name = j_da_name job,
      j_company_name = j_company_name job,
      phone_number = nullish (phone_number job) Null,
      job_link = job_link job,
      file_name = nullish (file_name job) Null\<rparr>"

definition addJob ::
  "stamp response \<Rightarrow> job_draft \<Rightarrow> store \<Rightarrow> db \<Rightarrow> unit response \<times> store \<times> db" where
  "addJob outcome job w d =
     (case insert_job outcome (jobToInsert job) d of
        (Inl e, d1) \<Rightarrow>
          (Inl e,
           w\<lparr>alerts := alerts w @ [''Failed to add job opening. Please try again.''],
             console := console w @ [(''Error adding job:'', e)]\<rparr>,
           d1)
      | (Inr data, d1) \<Rightarrow> (Inr (), w\<lparr>jobs := data # jobs w\<rparr>, d1))"


section \<open>Example inputs\<close>

text \<open>
  A reload in which the reads settle out of source order, \<open>fetchQuestions\<close> fails and
  the other reads succeed; the same reload with the \<open>hr_entries\<close> select failing; and
  the submissions of the spec's scenarios.
\<close>

definition example_schedule :: "read list" where
  "example_schedule = [ReadJobs, ReadHREntries, ReadAnswers, ReadQuestions]"

definition example_hr_rows :: "hr_row list" where
  "example_hr_rows =
     [\<lparr>da_name = ''A'', company_name = ''Acme'', hr_name = ''Bob'', hr_contact = ''555-0100'',
       hr_id = ''h1'', hr_created_at = ''t1''\<rparr>,
      \<lparr>da_name = ''B'', company_name = ''Globex'', hr_name = ''Eve'', hr_contact = ''555-0101'',
       hr_id = ''h2'', hr_created_at = ''t2''\<rparr>]"

definition example_question_rows :: "question_row list" where
  "example_question_rows =
     [\<lparr>q_text = ''Tell me about yourself'', topic = '''', asked_by = '''',
       hr_entry_id = Some ''h1'', q_id = ''q1'', q_created_at = ''t1''\<rparr>,
      \<lparr>q_text = ''What is a closure?'', topic = ''js'', asked_by = ''C'',
       hr_entry_id = None, q_id = ''q2'', q_created_at = ''t3''\<rparr>]"

definition example_responses :: responses where
  "example_responses =
     \<lparr>hr_select = Inr example_hr_rows,
      hr_questions_select = Inr example_question_rows,
      questions_select = Inl (ServiceError ''timeout''),
      answers_select = Inr [],
      jobs_select = Inr []\<rparr>"

definition example_failed_responses :: responses where
  "example_failed_responses = example_responses\<lparr>hr_select := Inl (ServiceError ''timeout'')\<rparr>"

definition example_entry :: hr_draft where
  "example_entry =
     \<lparr>da_name = ''A'', company_name = ''Acme'', hr_name = ''Bob'', hr_contact = ''555-0100'',
      draft_questions = [''Tell me about yourself'']\<rparr>"

definition example_job :: job_draft where
  "example_job =
     \<lparr>j_da_name = ''A'', j_company_name = ''Acme'', phone_number = Undefined,
      job_link = ''https://acme.example/jobs/1'', file_name = Value ''cv.pdf''\<rparr>"

definition empty_db :: db where
  "empty_db = \<lparr>hr_entries_table = [], questions_table = [], answers_table = [], jobs_table = []\<rparr>"


section \<open>The reads of a reload, whatever the order in which they settle\<close>

text \<open>
  Each read writes its own cell of the store and no other, so what a reload leaves in a
  cell is what the read of that cell leaves there, for every order of settling.
\<close>

lemmas fetch_defs =
  run_read_def fetchHREntries_def fetchQuestions_def fetchAnswers_def fetchJobs_def

lemma promise_all_snd:
  "snd (promise_all (t # ts) w) = snd (promise_all ts (snd (t w)))"
  by (cases "t w"; cases "fst (t w)") auto

lemma promise_all_fst:
  "fst (promise_all (t # ts) w) =
     (case fst (t w) of Inl e \<Rightarrow> Inl e | Inr u \<Rightarrow> fst (promise_all ts (snd (t w))))"
  by (cases "t w"; cases "fst (t w)") auto

lemma fetchHREntries_result_indep:
  "fst (fetchHREntries rs w) = fst (fetchHREntries rs w')"
  by (simp add: fetchHREntries_def split: sum.splits)

lemma run_read_result:
  "fst (run_read rs b w) = (if b = ReadHREntries then fst (fetchHREntries rs w) else Inr ())"
  by (simp add: fetch_defs split: read.splits sum.splits)

lemma reads_result:
  "fst (promise_all (map (run_read rs) sched) w) =
     (if ReadHREntries \<in> set sched then fst (fetchHREntries rs w) else Inr ())"
proof (induction sched arbitrary: w)
  case Nil
  show ?case by simp
next
  case (Cons b sched)
  let ?w1 = "snd (run_read rs b w)"
  have ih: "fst (promise_all (map (run_read rs) sched) ?w1) =
      (if ReadHREntries \<in> set sched then fst (fetchHREntries rs w) else Inr ())"
    using Cons.IH [of ?w1] fetchHREntries_result_indep [of rs ?w1 w] by simp
  show ?case
  proof (cases "b = ReadHREntries")
    case True
    then show ?thesis
      using ih by (cases "fst (fetchHREntries rs w)")
        (simp_all add: promise_all_fst run_read_result del: promise_all.simps)
  next
    case False
    then show ?thesis
      using ih by (simp add: promise_all_fst run_read_result del: promise_all.simps)
  qed
qed

lemma reads_loading:
  "loading (snd (promise_all (map (run_read rs) sched) w)) = loading w"
  by (induction sched arbitrary: w)
    (simp_all add: promise_all_snd fetch_defs del: promise_all.simps(2) split: read.splits sum.splits)

lemma reads_unhandled:
  "unhandled (snd (promise_all (map (run_read rs) sched) w)) = unhandled w"
  by (induction sched arbitrary: w)
    (simp_all add: promise_all_snd fetch_defs del: promise_all.simps(2) split: read.splits sum.splits)


lemma reads_hrEntries:
  "hrEntries (snd (promise_all (map (run_read rs) sched) w)) =
     (if ReadHREntries \<in> set sched then hrEntries (snd (fetchHREntries rs w)) else hrEntries w)"
  by (induction sched arbitrary: w)
    (simp_all add: promise_all_snd fetch_defs del: promise_all.simps(2) split: read.splits sum.splits)

lemma reads_questions:
  "questions (snd (promise_all (map (run_read rs) sched) w)) =
     (if ReadQuestions \<in> set sched then questions (snd (fetchQuestions rs w)) else questions w)"
  by (induction sched arbitrary: w)
    (simp_all add: promise_all_snd fetch_defs del: promise_all.simps(2) split: read.splits sum.splits)

lemma reads_answers:
  "answers (snd (promise_all (map (run_read rs) sched) w)) =
     (if ReadAnswers \<in> set sched then answers (snd (fetchAnswers rs w)) else answers w)"
  by (induction sched arbitrary: w)
    (simp_all add: promise_all_snd fetch_defs del: promise_all.simps(2) split: read.splits sum.splits)

lemma reads_jobs:
  "jobs (snd (promise_all (map (run_read rs) sched) w)) =
     (if ReadJobs \<in> set sched then jobs (snd (fetchJobs rs w)) else jobs w)"
  by (induction sched arbitrary: w)
    (simp_all add: promise_all_snd fetch_defs del: promise_all.simps(2) split: read.splits sum.splits)

lemma run_read_console: "set (console w) \<subseteq> set (console (snd (run_read rs b w)))"
  by (auto simp add: fetch_defs split: read.splits sum.splits)

lemma reads_console_mono:
  "set (console w) \<subseteq> set (console (snd (promise_all (map (run_read rs) sched) w)))"
proof (induction sched arbitrary: w)
  case Nil
  show ?case by simp
next
  case (Cons b sched)
  have "set (console w) \<subseteq> set (console (snd (run_read rs b w)))"
    by (rule run_read_console)
  also have "\<dots> \<subseteq> set (console (snd (promise_all (map (run_read rs) sched) (snd (run_read rs b w)))))"
    by (rule Cons.IH)
  finally show ?case by (simp only: list.map promise_all_snd)
qed

lemma reads_console_logged:
  assumes "b \<in> set sched" and "\<And>w. (m, e) \<in> set (console (snd (run_read rs b w)))"
  shows "(m, e) \<in> set (console (snd (promise_all (map (run_read rs) sched) w)))"
  using assms(1)
proof (induction sched arbitrary: w)
  case Nil
  then show ?case by simp
next
  case (Cons c sched)
  let ?w1 = "snd (run_read rs c w)"
  show ?case
  proof (cases "c = b")
    case True
    have "(m, e) \<in> set (console ?w1)"
      using assms(2) [of w] True by simp
    then have "(m, e) \<in> set (console (snd (promise_all (map (run_read rs) sched) ?w1)))"
      using reads_console_mono [of ?w1 rs sched] by blast
    then show ?thesis by (simp only: list.map promise_all_snd)
  next
    case False
    then have "b \<in> set sched" using Cons.prems by simp
    then have "(m, e) \<in> set (console (snd (promise_all (map (run_read rs) sched) ?w1)))"
      by (rule Cons.IH)
    then show ?thesis by (simp only: list.map promise_all_snd)
  qed
qed

lemma reads_console_questions:
  assumes "ReadQuestions \<in> set sched" and "questions_select rs = Inl e"
  shows "(''Error fetching questions:'', e) \<in>
           set (console (snd (promise_all (map (run_read rs) sched) w)))"
  using assms(1) by (rule reads_console_logged) (simp add: fetch_defs assms(2))

lemma reads_console_answers:
  assumes "ReadAnswers \<in> set sched" and "answers_select rs = Inl e"
  shows "(''Error fetching answers:'', e) \<in>
           set (console (snd (promise_all (map (run_read rs) sched) w)))"
  using assms(1) by (rule reads_console_logged) (simp add: fetch_defs assms(2))

lemma reads_console_jobs:
  assumes "ReadJobs \<in> set sched" and "jobs_select rs = Inl e"
  shows "(''Error fetching jobs:'', e) \<in>
           set (console (snd (promise_all (map (run_read rs) sched) w)))"
  using assms(1) by (rule reads_console_logged) (simp add: fetch_defs assms(2))


lemma refreshData_result:
  "fst (refreshData sched rs w) = fst (promise_all (map (run_read rs) sched) (w\<lparr>loading := True\<rparr>))"
  by (simp add: refreshData_def split: prod.splits sum.splits)

lemma refreshData_store:
  "snd (refreshData sched rs w) =
     (case fst (promise_all (map (run_read rs) sched) (w\<lparr>loading := True\<rparr>)) of
        Inl e \<Rightarrow> snd (promise_all (map (run_read rs) sched) (w\<lparr>loading := True\<rparr>))
      | Inr u \<Rightarrow> (snd (promise_all (map (run_read rs) sched) (w\<lparr>loading := True\<rparr>)))\<lparr>loading := False\<rparr>)"
  by (simp add: refreshData_def split: prod.splits sum.splits)

lemma schedule_mem:
  "schedule sched \<Longrightarrow> b \<in> set sched"
  by (cases b) (simp_all add: schedule_def)

lemma refreshData_completes_iff:
  assumes "schedule sched"
  shows "fst (refreshData sched rs w) = Inr () \<longleftrightarrow>
         (\<exists>hs qs. hr_select rs = Inr hs \<and> hr_questions_select rs = Inr qs)"
  using schedule_mem [OF assms, of ReadHREntries]
  by (auto simp add: refreshData_result reads_result fetchHREntries_def split: sum.splits)

lemma attach_questions_simps:
  "hr_questions (attach_questions qs h) = filter (\<lambda>q. hr_entry_id q = Some (hr_id h)) qs"
  "hr_id (attach_questions qs h) = hr_id h"
  "hr_row.truncate (attach_questions qs h) = h"
  by (simp_all add: attach_questions_def hr_row.defs HREntry.defs)

lemma refreshData_questions:
  assumes "schedule sched"
  shows "questions (snd (refreshData sched rs w)) =
           (case questions_select rs of Inl e \<Rightarrow> questions w | Inr data \<Rightarrow> data)"
  using schedule_mem [OF assms, of ReadQuestions]
  by (simp add: refreshData_store reads_questions fetchQuestions_def split: sum.splits)

lemma refreshData_answers:
  assumes "schedule sched"
  shows "answers (snd (refreshData sched rs w)) =
           (case answers_select rs of Inl e \<Rightarrow> answers w | Inr data \<Rightarrow> data)"
  using schedule_mem [OF assms, of ReadAnswers]
  by (simp add: refreshData_store reads_answers fetchAnswers_def split: sum.splits)

lemma refreshData_jobs:
  assumes "schedule sched"
  shows "jobs (snd (refreshData sched rs w)) =
           (case jobs_select rs of Inl e \<Rightarrow> jobs w | Inr data \<Rightarrow> data)"
  using schedule_mem [OF assms, of ReadJobs]
  by (simp add: refreshData_store reads_jobs fetchJobs_def split: sum.splits)

lemma refreshData_console:
  "console (snd (refreshData sched rs w)) =
     console (snd (promise_all (map (run_read rs) sched) (w\<lparr>loading := True\<rparr>)))"
  by (simp add: refreshData_store split: sum.splits)

lemma refreshData_hrEntries:
  assumes "schedule sched"
  shows "hrEntries (snd (refreshData sched rs w)) =
           (case hr_select rs of
              Inl e \<Rightarrow> hrEntries w
            | Inr hs \<Rightarrow> (case hr_questions_select rs of
                           Inl e \<Rightarrow> hrEntries w
                         | Inr qs \<Rightarrow> map (attach_questions qs) hs))"
  using schedule_mem [OF assms, of ReadHREntries]
  by (simp add: refreshData_store reads_hrEntries fetchHREntries_def split: sum.splits)

lemma refreshData_loading:
  "loading (snd (refreshData sched rs w)) =
     (case fst (refreshData sched rs w) of Inl e \<Rightarrow> True | Inr u \<Rightarrow> False)"
  by (simp add: refreshData_store refreshData_result reads_loading split: sum.splits)

lemma refreshData_throws:
  assumes "schedule sched"
  shows "fst (refreshData sched rs w) =
           (case hr_select rs of
              Inl e \<Rightarrow> Inl e
            | Inr hs \<Rightarrow> (case hr_questions_select rs of Inl e \<Rightarrow> Inl e | Inr qs \<Rightarrow> Inr ()))"
  using schedule_mem [OF assms, of ReadHREntries]
  by (simp add: refreshData_result reads_result fetchHREntries_def split: sum.splits)


lemma refreshData_unhandled:
  "unhandled (snd (refreshData sched rs w)) = unhandled w"
  by (simp add: refreshData_store reads_unhandled split: sum.splits)

lemma mount_unfold:
  "mount sched rs w =
     (case fst (refreshData sched rs w) of
        Inl e \<Rightarrow> (snd (refreshData sched rs w))\<lparr>unhandled := unhandled (snd (refreshData sched rs w)) @ [e]\<rparr>
      | Inr u \<Rightarrow> snd (refreshData sched rs w))"
  by (simp add: mount_def split: prod.splits sum.splits)


section \<open>Facts about the service and the mutation operations\<close>

lemmas insert_defs =
  insert_hr_entry_def insert_question_def insert_answer_def insert_job_def insert_questions_def

lemmas stamp_defs =
  stamp_hr_def stamp_question_def stamp_answer_def stamp_job_def
  hr_data.defs hr_row.defs question_draft.defs question_insert.defs question_row.defs
  answer_draft.defs answer_row.defs job_draft.defs job_row.defs


lemma addHREntry_store: "fst (snd (addHREntry hrOutcome qOutcome entry w d)) = w"
  by (simp add: addHREntry_def insert_defs split: sum.splits)

lemma addQuestion_loading: "loading (fst (snd (addQuestion outcome question w d))) = loading w"
  by (simp add: addQuestion_def insert_defs split: sum.splits)

lemma addAnswer_loading: "loading (fst (snd (addAnswer outcome answer w d))) = loading w"
  by (simp add: addAnswer_def insert_defs split: sum.splits)

lemma addJob_loading: "loading (fst (snd (addJob outcome job w d))) = loading w"
  by (simp add: addJob_def insert_defs split: sum.splits)


lemma stamped_q_text:
  "map q_text (map (\<lambda>(i, r). stamp_question (g i) r) (enumerate n rows)) = map q_text rows"
  by (induction rows arbitrary: n) (simp_all add: stamp_defs)

lemma stamped_fields:
  assumes "q \<in> set (map (\<lambda>(i, r). stamp_question (g i) r) (enumerate n rows))"
  shows "\<exists>r \<in> set rows. hr_entry_id q = hr_entry_id r \<and> topic q = topic r \<and> asked_by q = asked_by r"
proof -
  obtain i r where ir: "(i, r) \<in> set (enumerate n rows)" and q: "q = stamp_question (g i) r"
    using assms by auto
  have "r \<in> set rows"
    using ir by (auto simp add: enumerate_eq_zip dest: set_zip_rightD)
  moreover have "hr_entry_id q = hr_entry_id r \<and> topic q = topic r \<and> asked_by q = asked_by r"
    by (simp add: q stamp_defs)
  ultimately show ?thesis by blast
qed

section \<open>Add HR Entry\<close>

text \<open>
  Claim C1. When the service accepts the inserts that Add HR Entry issues, a submission
  with \<open>N\<close> question texts (\<open>N \<ge> 0\<close>) adds exactly one row to table \<open>hr_entries\<close>,
  holding the submitted fields, and exactly \<open>N\<close> rows to table \<open>questions\<close>, one
  for each text and in their order; each of them has \<open>hr_entry_id\<close> equal to the id
  of the new entry and \<open>topic\<close> and \<open>asked_by\<close> empty. The other tables are as
  before.
\<close>

theorem addHREntry_inserts_rows:
  assumes "draft_questions entry = [] \<or> \<not> isl qOutcome"
  shows "fst (addHREntry (Inr s) qOutcome entry w d) = Inr () \<and>
         (\<exists>h new.
            snd (snd (addHREntry (Inr s) qOutcome entry w d)) =
              d\<lparr>hr_entries_table := hr_entries_table d @ [h],
                questions_table := questions_table d @ new\<rparr> \<and>
            hr_data.truncate h = hr_data.truncate entry \<and>
            hr_id h = fst s \<and>
            length new = length (draft_questions entry) \<and>
            map q_text new = draft_questions entry \<and>
            (\<forall>q \<in> set new. hr_entry_id q = Some (hr_id h) \<and> topic q = '''' \<and> asked_by q = ''''))"
proof (cases "draft_questions entry = []")
  case True
  let ?h = "stamp_hr s (hr_data.truncate entry)"
  have res: "fst (addHREntry (Inr s) qOutcome entry w d) = Inr ()"
    using True by (simp add: addHREntry_def insert_defs)
  have db: "snd (snd (addHREntry (Inr s) qOutcome entry w d)) =
      d\<lparr>hr_entries_table := hr_entries_table d @ [?h], questions_table := questions_table d @ []\<rparr>"
    using True by (simp add: addHREntry_def insert_defs)
  have h: "hr_data.truncate ?h = hr_data.truncate entry" "hr_id ?h = fst s"
    by (simp_all add: stamp_defs)
  show ?thesis
    using res db h True by (intro conjI exI [of _ ?h] exI [of _ "[]"]) simp_all
next
  case False
  then obtain g where g: "qOutcome = Inr g"
    using assms by (cases qOutcome) simp_all
  let ?h = "stamp_hr s (hr_data.truncate entry)"
  let ?rows = "map (\<lambda>q. \<lparr>q_text = q, topic = '''', asked_by = '''', hr_entry_id = Some (hr_id ?h)\<rparr>)
                 (draft_questions entry)"
  let ?new = "map (\<lambda>(i, r). stamp_question (g i) r) (enumerate 0 ?rows)"
  have res: "fst (addHREntry (Inr s) qOutcome entry w d) = Inr ()"
    using False g by (simp add: addHREntry_def insert_defs)
  have db: "snd (snd (addHREntry (Inr s) qOutcome entry w d)) =
      d\<lparr>hr_entries_table := hr_entries_table d @ [?h], questions_table := questions_table d @ ?new\<rparr>"
    using False g by (simp add: addHREntry_def insert_defs)
  have h: "hr_data.truncate ?h = hr_data.truncate entry" "hr_id ?h = fst s"
    by (simp_all add: stamp_defs)
  have len: "length ?new = length (draft_questions entry)" by simp
  have texts: "map q_text ?new = draft_questions entry"
    by (simp only: stamped_q_text) (simp add: comp_def)
  have each: "\<forall>q \<in> set ?new. hr_entry_id q = Some (hr_id ?h) \<and> topic q = '''' \<and> asked_by q = ''''"
  proof
    fix q assume "q \<in> set ?new"
    then obtain r where "r \<in> set ?rows"
      "hr_entry_id q = hr_entry_id r" "topic q = topic r" "asked_by q = asked_by r"
      using stamped_fields by blast
    then show "hr_entry_id q = Some (hr_id ?h) \<and> topic q = '''' \<and> asked_by q = ''''"
      by auto
  qed
  show ?thesis
    using res db h len texts each by (intro conjI exI [of _ ?h] exI [of _ ?new])
qed

theorem addHREntry_inserts_rows_witness:
  "(draft_questions example_entry = [] \<or> \<not> isl (Inr (\<lambda>i. (''q1'', ''t2'')) :: (nat \<Rightarrow> stamp) response)) \<and>
   fst (addHREntry (Inr (''h1'', ''t1'')) (Inr (\<lambda>i. (''q1'', ''t2''))) example_entry initial_store empty_db) = Inr () \<and>
   (\<exists>h new.
      snd (snd (addHREntry (Inr (''h1'', ''t1'')) (Inr (\<lambda>i. (''q1'', ''t2''))) example_entry initial_store empty_db)) =
        empty_db\<lparr>hr_entries_table := hr_entries_table empty_db @ [h],
                questions_table := questions_table empty_db @ new\<rparr> \<and>
      hr_data.truncate h = hr_data.truncate example_entry \<and>
      hr_id h = fst (''h1'', ''t1'') \<and>
      length new = length (draft_questions example_entry) \<and>
      map q_text new = draft_questions example_entry \<and>
      (\<forall>q \<in> set new. hr_entry_id q = Some (hr_id h) \<and> topic q = '''' \<and> asked_by q = ''''))"
proof -
  have accepted: "draft_questions example_entry = [] \<or>
      \<not> isl (Inr (\<lambda>i. (''q1'', ''t2'')) :: (nat \<Rightarrow> stamp) response)"
    by simp
  show ?thesis
    by (rule conjI [OF accepted addHREntry_inserts_rows [OF accepted]])
qed

text \<open>
  Claim C7. When the insert of the entry succeeds and the batch insert of its question
  rows fails, Add HR Entry fails with that error, and the service keeps the entry row:
  table \<open>hr_entries\<close> holds it, and nothing takes it out again.
\<close>

theorem addHREntry_no_rollback:
  assumes "draft_questions entry \<noteq> []"
  shows "addHREntry (Inr s) (Inl e) entry w d =
           (Inl e, w, d\<lparr>hr_entries_table := hr_entries_table d @ [stamp_hr s (hr_data.truncate entry)]\<rparr>)"
  using assms by (simp add: addHREntry_def insert_defs)

theorem addHREntry_no_rollback_witness:
  "draft_questions example_entry \<noteq> [] \<and>
   addHREntry (Inr (''h1'', ''t1'')) (Inl (ServiceError ''timeout'')) example_entry initial_store empty_db =
     (Inl (ServiceError ''timeout''), initial_store,
      empty_db\<lparr>hr_entries_table :=
                hr_entries_table empty_db @ [stamp_hr (''h1'', ''t1'') (hr_data.truncate example_entry)]\<rparr>)"
proof -
  have nonempty: "draft_questions example_entry \<noteq> []"
    by (simp add: example_entry_def)
  show ?thesis
    by (rule conjI [OF nonempty addHREntry_no_rollback [OF nonempty]])
qed

text \<open>
  Claim C8. A successful Add HR Entry leaves the local state as it was: the collections
  \<open>hrEntries\<close>, \<open>questions\<close>, \<open>answers\<close> and \<open>jobs\<close> and the \<open>loading\<close> flag have the
  value they had before.
\<close>

theorem addHREntry_leaves_store:
  assumes "fst (addHREntry hrOutcome qOutcome entry w d) = Inr ()"
  shows "hrEntries (fst (snd (addHREntry hrOutcome qOutcome entry w d))) = hrEntries w \<and>
         questions (fst (snd (addHREntry hrOutcome qOutcome entry w d))) = questions w \<and>
         answers (fst (snd (addHREntry hrOutcome qOutcome entry w d))) = answers w \<and>
         jobs (fst (snd (addHREntry hrOutcome qOutcome entry w d))) = jobs w \<and>
         loading (fst (snd (addHREntry hrOutcome qOutcome entry w d))) = loading w"
  by (simp add: addHREntry_store)

theorem addHREntry_leaves_store_witness:
  "fst (addHREntry (Inr (''h1'', ''t1'')) (Inr (\<lambda>i. (''q1'', ''t2''))) example_entry initial_store empty_db) = Inr () \<and>
   hrEntries (fst (snd (addHREntry (Inr (''h1'', ''t1'')) (Inr (\<lambda>i. (''q1'', ''t2''))) example_entry initial_store empty_db))) = hrEntries initial_store \<and>
   questions (fst (snd (addHREntry (Inr (''h1'', ''t1'')) (Inr (\<lambda>i. (''q1'', ''t2''))) example_entry initial_store empty_db))) = questions initial_store \<and>
   answers (fst (snd (addHREntry (Inr (''h1'', ''t1'')) (Inr (\<lambda>i. (''q1'', ''t2''))) example_entry initial_store empty_db))) = answers initial_store \<and>
   jobs (fst (snd (addHREntry (Inr (''h1'', ''t1'')) (Inr (\<lambda>i. (''q1'', ''t2''))) example_entry initial_store empty_db))) = jobs initial_store \<and>
   loading (fst (snd (addHREntry (Inr (''h1'', ''t1'')) (Inr (\<lambda>i. (''q1'', ''t2''))) example_entry initial_store empty_db))) = loading initial_store"
proof -
  have succeeds: "fst (addHREntry (Inr (''h1'', ''t1'')) (Inr (\<lambda>i. (''q1'', ''t2''))) example_entry initial_store empty_db) = Inr ()"
    by (simp add: addHREntry_def insert_defs example_entry_def)
  show ?thesis
    by (rule conjI [OF succeeds addHREntry_leaves_store [OF succeeds]])
qed

section \<open>Add Question, Add Answer, Add Job\<close>

text \<open>
  Claim C4. A successful Add Question, Add Answer or Add Job leaves its collection with
  the row the service inserted at index 0 and every row held before one position
  further, in the order they had.
\<close>

theorem add_prepends_inserted_row:
  "fst (addQuestion (Inr s) question w d) = Inr () \<and>
   questions_table (snd (snd (addQuestion (Inr s) question w d))) =
     questions_table d @ [questions (fst (snd (addQuestion (Inr s) question w d))) ! 0] \<and>
   tl (questions (fst (snd (addQuestion (Inr s) question w d)))) = questions w \<and>
   length (questions (fst (snd (addQuestion (Inr s) question w d)))) = Suc (length (questions w)) \<and>
   (\<forall>i < length (questions w).
      questions (fst (snd (addQuestion (Inr s) question w d))) ! Suc i = questions w ! i) \<and>
   fst (addAnswer (Inr s) answer w d) = Inr () \<and>
   answers_table (snd (snd (addAnswer (Inr s) answer w d))) =
     answers_table d @ [answers (fst (snd (addAnswer (Inr s) answer w d))) ! 0] \<and>
   tl (answers (fst (snd (addAnswer (Inr s) answer w d)))) = answers w \<and>
   length (answers (fst (snd (addAnswer (Inr s) answer w d)))) = Suc (length (answers w)) \<and>
   (\<forall>i < length (answers w).
      answers (fst (snd (addAnswer (Inr s) answer w d))) ! Suc i = answers w ! i) \<and>
   fst (addJob (Inr s) job w d) = Inr () \<and>
   jobs_table (snd (snd (addJob (Inr s) job w d))) =
     jobs_table d @ [jobs (fst (snd (addJob (Inr s) job w d))) ! 0] \<and>
   tl (jobs (fst (snd (addJob (Inr s) job w d)))) = jobs w \<and>
   length (jobs (fst (snd (addJob (Inr s) job w d)))) = Suc (length (jobs w)) \<and>
   (\<forall>i < length (jobs w).
      jobs (fst (snd (addJob (Inr s) job w d))) ! Suc i = jobs w ! i)"
  by (simp add: addQuestion_def addAnswer_def addJob_def insert_defs)

theorem add_prepends_inserted_row_witness:
  "1 < length (questions (initial_store\<lparr>questions := example_question_rows\<rparr>)) \<and>
   questions (fst (snd (addQuestion (Inr (''q9'', ''t9''))
      \<lparr>q_text = ''Why HOL?'', topic = ''logic'', asked_by = ''D''\<rparr>
      (initial_store\<lparr>questions := example_question_rows\<rparr>) empty_db))) ! Suc 1 =
   questions (initial_store\<lparr>questions := example_question_rows\<rparr>) ! 1"
proof -
  have bound: "1 < length (questions (initial_store\<lparr>questions := example_question_rows\<rparr>))"
    by (simp add: example_question_rows_def)
  show ?thesis
    using bound add_prepends_inserted_row
      [of "(''q9'', ''t9'')" "\<lparr>q_text = ''Why HOL?'', topic = ''logic'', asked_by = ''D''\<rparr>"
          "initial_store\<lparr>questions := example_question_rows\<rparr>" empty_db]
    by blast
qed

text \<open>
  Claim C5. When the service answers an insert with an error, each of the four mutation
  operations fails with that error, and the collection the operation maintains is as
  it was before. For Add HR Entry this holds for the insert of the entry and for the
  batch insert of its questions.
\<close>

theorem failed_insert_propagates:
  "addHREntry (Inl e) qOutcome entry w d = (Inl e, w, d) \<and>
   (draft_questions entry \<noteq> [] \<longrightarrow>
      fst (addHREntry (Inr s) (Inl e) entry w d) = Inl e \<and>
      fst (snd (addHREntry (Inr s) (Inl e) entry w d)) = w) \<and>
   fst (addQuestion (Inl e) question w d) = Inl e \<and>
   questions (fst (snd (addQuestion (Inl e) question w d))) = questions w \<and>
   fst (addAnswer (Inl e) answer w d) = Inl e \<and>
   answers (fst (snd (addAnswer (Inl e) answer w d))) = answers w \<and>
   fst (addJob (Inl e) job w d) = Inl e \<and>
   jobs (fst (snd (addJob (Inl e) job w d))) = jobs w"
  by (simp add: addHREntry_def addQuestion_def addAnswer_def addJob_def insert_defs)

theorem failed_insert_propagates_witness:
  "draft_questions example_entry \<noteq> [] \<and>
   fst (addHREntry (Inr (''h1'', ''t1'')) (Inl (ServiceError ''timeout'')) example_entry initial_store empty_db) =
     Inl (ServiceError ''timeout'') \<and>
   fst (snd (addHREntry (Inr (''h1'', ''t1'')) (Inl (ServiceError ''timeout'')) example_entry initial_store empty_db)) =
     initial_store"
proof -
  have nonempty: "draft_questions example_entry \<noteq> []"
    by (simp add: example_entry_def)
  show ?thesis
    using nonempty failed_insert_propagates
      [of "ServiceError ''timeout''" _ example_entry initial_store empty_db "(''h1'', ''t1'')"]
    by blast
qed

text \<open>
  Claim C9. Add Job sends \<open>phone_number\<close> and \<open>file_name\<close>, each on its own, as
  \<open>null\<close> when the submission leaves the field out (or gives \<open>null\<close>), and as given
  otherwise; the other fields go out as submitted. The row so built is the row handed
  to the service, and the row the service stores when it accepts it. For a submission
  without \<open>phone_number\<close> that row has \<open>phone_number\<close> equal to \<open>null\<close>: it is not
  the empty string and it is not left out of the row; likewise for \<open>file_name\<close>.
\<close>

theorem addJob_normalizes_optional_fields:
  "phone_number (jobToInsert job) =
     (case phone_number job of Undefined \<Rightarrow> Null | Null \<Rightarrow> Null | Value v \<Rightarrow> Value v) \<and>
   file_name (jobToInsert job) =
     (case file_name job of Undefined \<Rightarrow> Null | Null \<Rightarrow> Null | Value v \<Rightarrow> Value v) \<and>
   j_da_name (jobToInsert job) = j_da_name job \<and>
   j_company_name (jobToInsert job) = j_company_name job \<and>
   job_link (jobToInsert job) = job_link job \<and>
   phone_number (jobToInsert job) \<noteq> Undefined \<and>
   file_name (jobToInsert job) \<noteq> Undefined \<and>
   (phone_number job = Undefined \<longrightarrow>
      phone_number (jobToInsert job) = Null \<and>
      phone_number (jobToInsert job) \<noteq> Value '''' \<and>
      phone_number (last (jobs_table (snd (snd (addJob (Inr s) job w d))))) = Null) \<and>
   (file_name job = Undefined \<longrightarrow>
      file_name (jobToInsert job) = Null \<and>
      file_name (jobToInsert job) \<noteq> Value '''' \<and>
      file_name (last (jobs_table (snd (snd (addJob (Inr s) job w d))))) = Null) \<and>
   snd (snd (addJob outcome job w d)) = snd (insert_job outcome (jobToInsert job) d) \<and>
   jobs_table (snd (snd (addJob (Inr s) job w d))) =
     jobs_table d @ [stamp_job s (jobToInsert job)] \<and>
   phone_number (last (jobs_table (snd (snd (addJob (Inr s) job w d))))) =
     phone_number (jobToInsert job) \<and>
   file_name (last (jobs_table (snd (snd (addJob (Inr s) job w d))))) =
     file_name (jobToInsert job)"
proof -
  have sent: "snd (snd (addJob outcome job w d)) = snd (insert_job outcome (jobToInsert job) d)"
    by (simp add: addJob_def split: prod.splits sum.splits)
  have stored: "jobs_table (snd (snd (addJob (Inr s) job w d))) =
      jobs_table d @ [stamp_job s (jobToInsert job)]"
    by (simp add: addJob_def insert_defs)
  have kept: "phone_number (stamp_job s r) = phone_number r"
    "file_name (stamp_job s r) = file_name r" for r
    by (simp_all add: stamp_defs)
  have phone: "phone_number (jobToInsert job) =
      (case phone_number job of Undefined \<Rightarrow> Null | Null \<Rightarrow> Null | Value v \<Rightarrow> Value v)"
    by (simp add: jobToInsert_def nullish_def)
  have fname: "file_name (jobToInsert job) =
      (case file_name job of Undefined \<Rightarrow> Null | Null \<Rightarrow> Null | Value v \<Rightarrow> Value v)"
    by (simp add: jobToInsert_def nullish_def)
  have rest: "j_da_name (jobToInsert job) = j_da_name job"
    "j_company_name (jobToInsert job) = j_company_name job"
    "job_link (jobToInsert job) = job_link job"
    by (simp_all add: jobToInsert_def)
  have present: "phone_number (jobToInsert job) \<noteq> Undefined"
    "file_name (jobToInsert job) \<noteq> Undefined"
    by (simp_all add: phone fname split: optional.splits)
  have last_phone: "phone_number (last (jobs_table (snd (snd (addJob (Inr s) job w d))))) =
      phone_number (jobToInsert job)"
    by (simp add: stored kept)
  have last_file: "file_name (last (jobs_table (snd (snd (addJob (Inr s) job w d))))) =
      file_name (jobToInsert job)"
    by (simp add: stored kept)
  have phone_omitted: "phone_number job = Undefined \<longrightarrow>
      phone_number (jobToInsert job) = Null \<and>
      phone_number (jobToInsert job) \<noteq> Value '''' \<and>
      phone_number (last (jobs_table (snd (snd (addJob (Inr s) job w d))))) = Null"
    by (simp add: last_phone) (simp add: phone)
  have file_omitted: "file_name job = Undefined \<longrightarrow>
      file_name (jobToInsert job) = Null \<and>
      file_name (jobToInsert job) \<noteq> Value '''' \<and>
      file_name (last (jobs_table (snd (snd (addJob (Inr s) job w d))))) = Null"
    by (simp add: last_file) (simp add: fname)
  from phone fname rest present phone_omitted file_omitted sent stored last_phone last_file
  show ?thesis by (intro conjI)
qed

theorem addJob_normalizes_optional_fields_witness:
  "phone_number example_job = Undefined \<and>
   phone_number (jobToInsert example_job) = Null \<and>
   phone_number (jobToInsert example_job) \<noteq> Value '''' \<and>
   phone_number (last (jobs_table (snd (snd (addJob (Inr (''j1'', ''t1'')) example_job
      initial_store empty_db))))) = Null \<and>
   file_name (example_job\<lparr>phone_number := Value ''555-0100'', file_name := Undefined\<rparr>) = Undefined \<and>
   file_name (jobToInsert (example_job\<lparr>phone_number := Value ''555-0100'', file_name := Undefined\<rparr>)) = Null \<and>
   file_name (jobToInsert (example_job\<lparr>phone_number := Value ''555-0100'', file_name := Undefined\<rparr>)) \<noteq> Value '''' \<and>
   file_name (last (jobs_table (snd (snd (addJob (Inr (''j1'', ''t1''))
      (example_job\<lparr>phone_number := Value ''555-0100'', file_name := Undefined\<rparr>)
      initial_store empty_db))))) = Null"
proof -
  have phone_omitted: "phone_number example_job = Undefined"
    by (simp add: example_job_def)
  have file_omitted:
    "file_name (example_job\<lparr>phone_number := Value ''555-0100'', file_name := Undefined\<rparr>) = Undefined"
    by simp
  show ?thesis
    using phone_omitted file_omitted
      addJob_normalizes_optional_fields
        [of example_job "(''j1'', ''t1'')" initial_store empty_db]
      addJob_normalizes_optional_fields
        [of "example_job\<lparr>phone_number := Value ''555-0100'', file_name := Undefined\<rparr>"
            "(''j1'', ''t1'')" initial_store empty_db]
    by blast
qed

section \<open>Full reload\<close>

text \<open>
  Claim C2. When a full reload completes, both selects of the HR-entries read have
  answered with rows, the reloaded \<open>hrEntries\<close> are the fetched entry rows, and the
  derived \<open>questions\<close> field of every entry is exactly the fetched question rows whose
  \<open>hr_entry_id\<close> is that entry's id, in the order fetched; an entry that no fetched
  question row points to gets the empty list. This holds for every order in which the
  four reads settle.
\<close>

theorem reload_joins_questions:
  assumes "schedule sched" and "fst (refreshData sched rs w) = Inr ()"
  shows "\<exists>hs qs. hr_select rs = Inr hs \<and> hr_questions_select rs = Inr qs \<and>
           map hr_row.truncate (hrEntries (snd (refreshData sched rs w))) = hs \<and>
           (\<forall>entry \<in> set (hrEntries (snd (refreshData sched rs w))).
              hr_questions entry = filter (\<lambda>q. hr_entry_id q = Some (hr_id entry)) qs \<and>
              set (hr_questions entry) = {q \<in> set qs. hr_entry_id q = Some (hr_id entry)} \<and>
              ((\<forall>q \<in> set qs. hr_entry_id q \<noteq> Some (hr_id entry)) \<longrightarrow> hr_questions entry = []))"
proof -
  obtain hs qs where ok: "hr_select rs = Inr hs" "hr_questions_select rs = Inr qs"
    using refreshData_completes_iff [OF assms(1), of rs w] assms(2) by blast
  have entries: "hrEntries (snd (refreshData sched rs w)) = map (attach_questions qs) hs"
    using ok by (simp add: refreshData_hrEntries [OF assms(1)])
  have rows: "map hr_row.truncate (map (attach_questions qs) hs) = hs"
    by (simp add: attach_questions_simps comp_def)
  have each: "\<forall>entry \<in> set (map (attach_questions qs) hs).
      hr_questions entry = filter (\<lambda>q. hr_entry_id q = Some (hr_id entry)) qs \<and>
      set (hr_questions entry) = {q \<in> set qs. hr_entry_id q = Some (hr_id entry)} \<and>
      ((\<forall>q \<in> set qs. hr_entry_id q \<noteq> Some (hr_id entry)) \<longrightarrow> hr_questions entry = [])"
    by (auto simp add: attach_questions_simps filter_empty_conv)
  show ?thesis
    using ok rows each unfolding entries by blast
qed

theorem reload_joins_questions_witness:
  "schedule example_schedule \<and>
   fst (refreshData example_schedule example_responses initial_store) = Inr () \<and>
   (\<exists>hs qs. hr_select example_responses = Inr hs \<and> hr_questions_select example_responses = Inr qs \<and>
      map hr_row.truncate (hrEntries (snd (refreshData example_schedule example_responses initial_store))) = hs \<and>
      (\<forall>entry \<in> set (hrEntries (snd (refreshData example_schedule example_responses initial_store))).
         hr_questions entry = filter (\<lambda>q. hr_entry_id q = Some (hr_id entry)) qs \<and>
         set (hr_questions entry) = {q \<in> set qs. hr_entry_id q = Some (hr_id entry)} \<and>
         ((\<forall>q \<in> set qs. hr_entry_id q \<noteq> Some (hr_id entry)) \<longrightarrow> hr_questions entry = [])))"
proof -
  have sched: "schedule example_schedule"
    by (simp add: schedule_def example_schedule_def insert_commute)
  have completes: "fst (refreshData example_schedule example_responses initial_store) = Inr ()"
    by (simp add: refreshData_def example_schedule_def example_responses_def fetch_defs)
  show ?thesis
    by (rule conjI [OF sched conjI [OF completes reload_joins_questions [OF sched completes]]])
qed

text \<open>
  Claim C3. In a full reload, for every order of settling: when the read of
  \<open>fetchQuestions\<close>, \<open>fetchAnswers\<close> or \<open>fetchJobs\<close> answers with an error, the error is
  logged and the collection of that read keeps the value it had before the reload, and
  when it answers with rows the collection is those rows; and when the two selects of
  the HR-entries read succeed, the reload completes, \<open>loading\<close> is false afterwards,
  and \<open>hrEntries\<close> is populated from those reads whatever the other three reads
  answered: its entries are the fetched entry rows, in the order fetched, and the
  \<open>questions\<close> of each entry are the fetched question rows whose \<open>hr_entry_id\<close> is
  that entry's id, in the order fetched.
\<close>

theorem reload_degrades_per_branch:
  assumes "schedule sched"
  shows "(case questions_select rs of
            Inl e \<Rightarrow> questions (snd (refreshData sched rs w)) = questions w \<and>
                     (''Error fetching questions:'', e) \<in> set (console (snd (refreshData sched rs w)))
          | Inr data \<Rightarrow> questions (snd (refreshData sched rs w)) = data) \<and>
         (case answers_select rs of
            Inl e \<Rightarrow> answers (snd (refreshData sched rs w)) = answers w \<and>
                     (''Error fetching answers:'', e) \<in> set (console (snd (refreshData sched rs w)))
          | Inr data \<Rightarrow> answers (snd (refreshData sched rs w)) = data) \<and>
         (case jobs_select rs of
            Inl e \<Rightarrow> jobs (snd (refreshData sched rs w)) = jobs w \<and>
                     (''Error fetching jobs:'', e) \<in> set (console (snd (refreshData sched rs w)))
          | Inr data \<Rightarrow> jobs (snd (refreshData sched rs w)) = data) \<and>
         (\<forall>hs qs. hr_select rs = Inr hs \<and> hr_questions_select rs = Inr qs \<longrightarrow>
            fst (refreshData sched rs w) = Inr () \<and>
            loading (snd (refreshData sched rs w)) = False \<and>
            map hr_row.truncate (hrEntries (snd (refreshData sched rs w))) = hs \<and>
            map hr_questions (hrEntries (snd (refreshData sched rs w))) =
              map (\<lambda>h. filter (\<lambda>q. hr_entry_id q = Some (hr_id h)) qs) hs \<and>
            (\<forall>entry \<in> set (hrEntries (snd (refreshData sched rs w))).
               hr_questions entry = filter (\<lambda>q. hr_entry_id q = Some (hr_id entry)) qs \<and>
               set (hr_questions entry) = {q \<in> set qs. hr_entry_id q = Some (hr_id entry)}))"
proof -
  note mem = schedule_mem [OF assms]
  have q: "case questions_select rs of
            Inl e \<Rightarrow> questions (snd (refreshData sched rs w)) = questions w \<and>
                     (''Error fetching questions:'', e) \<in> set (console (snd (refreshData sched rs w)))
          | Inr data \<Rightarrow> questions (snd (refreshData sched rs w)) = data"
    using reads_console_questions [OF mem]
    by (simp add: refreshData_questions [OF assms] refreshData_console split: sum.splits)
  have a: "case answers_select rs of
            Inl e \<Rightarrow> answers (snd (refreshData sched rs w)) = answers w \<and>
                     (''Error fetching answers:'', e) \<in> set (console (snd (refreshData sched rs w)))
          | Inr data \<Rightarrow> answers (snd (refreshData sched rs w)) = data"
    using reads_console_answers [OF mem]
    by (simp add: refreshData_answers [OF assms] refreshData_console split: sum.splits)
  have j: "case jobs_select rs of
            Inl e \<Rightarrow> jobs (snd (refreshData sched rs w)) = jobs w \<and>
                     (''Error fetching jobs:'', e) \<in> set (console (snd (refreshData sched rs w)))
          | Inr data \<Rightarrow> jobs (snd (refreshData sched rs w)) = data"
    using reads_console_jobs [OF mem]
    by (simp add: refreshData_jobs [OF assms] refreshData_console split: sum.splits)
  have h: "fst (refreshData sched rs w) = Inr () \<and>
           loading (snd (refreshData sched rs w)) = False \<and>
           map hr_row.truncate (hrEntries (snd (refreshData sched rs w))) = hs \<and>
           map hr_questions (hrEntries (snd (refreshData sched rs w))) =
             map (\<lambda>h. filter (\<lambda>q. hr_entry_id q = Some (hr_id h)) qs) hs \<and>
           (\<forall>entry \<in> set (hrEntries (snd (refreshData sched rs w))).
              hr_questions entry = filter (\<lambda>q. hr_entry_id q = Some (hr_id entry)) qs \<and>
              set (hr_questions entry) = {q \<in> set qs. hr_entry_id q = Some (hr_id entry)})"
    if ok: "hr_select rs = Inr hs \<and> hr_questions_select rs = Inr qs" for hs qs
  proof -
    have res: "fst (refreshData sched rs w) = Inr ()"
      using ok by (simp add: refreshData_throws [OF assms])
    have ld: "loading (snd (refreshData sched rs w)) = False"
      using res by (simp add: refreshData_loading)
    have entries: "hrEntries (snd (refreshData sched rs w)) = map (attach_questions qs) hs"
      using ok by (simp add: refreshData_hrEntries [OF assms])
    have rows: "map hr_row.truncate (map (attach_questions qs) hs) = hs"
      by (simp add: attach_questions_simps comp_def)
    have groups: "map hr_questions (map (attach_questions qs) hs) =
        map (\<lambda>h. filter (\<lambda>q. hr_entry_id q = Some (hr_id h)) qs) hs"
      by (simp add: attach_questions_simps comp_def)
    have each: "\<forall>entry \<in> set (map (attach_questions qs) hs).
        hr_questions entry = filter (\<lambda>q. hr_entry_id q = Some (hr_id entry)) qs \<and>
        set (hr_questions entry) = {q \<in> set qs. hr_entry_id q = Some (hr_id entry)}"
      by (auto simp add: attach_questions_simps)
    show ?thesis
      using res ld rows groups each unfolding entries by (intro conjI)
  qed
  have hr: "\<forall>hs qs. hr_select rs = Inr hs \<and> hr_questions_select rs = Inr qs \<longrightarrow>
            fst (refreshData sched rs w) = Inr () \<and>
            loading (snd (refreshData sched rs w)) = False \<and>
            map hr_row.truncate (hrEntries (snd (refreshData sched rs w))) = hs \<and>
            map hr_questions (hrEntries (snd (refreshData sched rs w))) =
              map (\<lambda>h. filter (\<lambda>q. hr_entry_id q = Some (hr_id h)) qs) hs \<and>
            (\<forall>entry \<in> set (hrEntries (snd (refreshData sched rs w))).
               hr_questions entry = filter (\<lambda>q. hr_entry_id q = Some (hr_id entry)) qs \<and>
               set (hr_questions entry) = {q \<in> set qs. hr_entry_id q = Some (hr_id entry)})"
    by (intro allI impI) (rule h)
  show ?thesis
    by (rule conjI [OF q conjI [OF a conjI [OF j hr]]])
qed

theorem reload_degrades_per_branch_witness:
  "schedule example_schedule \<and>
   hr_select example_responses = Inr example_hr_rows \<and>
   hr_questions_select example_responses = Inr example_question_rows \<and>
   questions_select example_responses = Inl (ServiceError ''timeout'') \<and>
   questions (snd (refreshData example_schedule example_responses
                     (initial_store\<lparr>questions := example_question_rows\<rparr>))) = example_question_rows \<and>
   (''Error fetching questions:'', ServiceError ''timeout'') \<in>
     set (console (snd (refreshData example_schedule example_responses
                          (initial_store\<lparr>questions := example_question_rows\<rparr>)))) \<and>
   fst (refreshData example_schedule example_responses
          (initial_store\<lparr>questions := example_question_rows\<rparr>)) = Inr () \<and>
   loading (snd (refreshData example_schedule example_responses
                   (initial_store\<lparr>questions := example_question_rows\<rparr>))) = False \<and>
   map hr_row.truncate (hrEntries (snd (refreshData example_schedule example_responses
                     (initial_store\<lparr>questions := example_question_rows\<rparr>)))) = example_hr_rows \<and>
   map hr_questions (hrEntries (snd (refreshData example_schedule example_responses
                     (initial_store\<lparr>questions := example_question_rows\<rparr>)))) =
     [[hd example_question_rows], []]"
proof -
  have sched: "schedule example_schedule"
    by (simp add: schedule_def example_schedule_def insert_commute)
  have reads: "hr_select example_responses = Inr example_hr_rows"
    "hr_questions_select example_responses = Inr example_question_rows"
    "questions_select example_responses = Inl (ServiceError ''timeout'')"
    by (simp_all add: example_responses_def)
  have groups: "map (\<lambda>h. filter (\<lambda>q. hr_entry_id q = Some (hr_id h)) example_question_rows)
      example_hr_rows = [[hd example_question_rows], []]"
    by (simp add: example_hr_rows_def example_question_rows_def)
  show ?thesis
    using sched reads groups
      reload_degrades_per_branch [OF sched, of example_responses
        "initial_store\<lparr>questions := example_question_rows\<rparr>"]
    by simp
qed

text \<open>
  Claim C6. In a full reload, an error of the HR-entries read, from its select on
  \<open>hr_entries\<close> or from its select on \<open>questions\<close>, is not caught: \<open>fetchHREntries\<close>
  fails with it and leaves the store as it was, the wait on the four reads fails with
  it for every order of settling, \<open>refreshData\<close> fails with it, and the mount effect,
  its only caller, leaves it as an unhandled rejection.
\<close>

theorem reload_hr_error_unhandled:
  assumes "schedule sched"
    and "hr_select rs = Inl e \<or> (\<exists>hs. hr_select rs = Inr hs) \<and> hr_questions_select rs = Inl e"
  shows "fetchHREntries rs w = (Inl e, w) \<and>
         fst (promise_all (map (run_read rs) sched) (w\<lparr>loading := True\<rparr>)) = Inl e \<and>
         fst (refreshData sched rs w) = Inl e \<and>
         unhandled (mount sched rs w) = unhandled w @ [e]"
proof -
  have f: "fetchHREntries rs w = (Inl e, w)"
    using assms(2) by (auto simp add: fetchHREntries_def)
  have r: "fst (refreshData sched rs w) = Inl e"
    using assms(2) by (auto simp add: refreshData_throws [OF assms(1)])
  have p: "fst (promise_all (map (run_read rs) sched) (w\<lparr>loading := True\<rparr>)) = Inl e"
    using r by (simp add: refreshData_result)
  have m: "unhandled (mount sched rs w) = unhandled w @ [e]"
    using r by (simp add: mount_unfold refreshData_unhandled)
  from f p r m show ?thesis by (intro conjI)
qed

theorem reload_hr_error_unhandled_witness:
  "schedule example_schedule \<and>
   (hr_select example_failed_responses = Inl (ServiceError ''timeout'') \<or>
    (\<exists>hs. hr_select example_failed_responses = Inr hs) \<and>
    hr_questions_select example_failed_responses = Inl (ServiceError ''timeout'')) \<and>
   fetchHREntries example_failed_responses initial_store = (Inl (ServiceError ''timeout''), initial_store) \<and>
   fst (promise_all (map (run_read example_failed_responses) example_schedule)
          (initial_store\<lparr>loading := True\<rparr>)) = Inl (ServiceError ''timeout'') \<and>
   fst (refreshData example_schedule example_failed_responses initial_store) = Inl (ServiceError ''timeout'') \<and>
   unhandled (mount example_schedule example_failed_responses initial_store) =
     unhandled initial_store @ [ServiceError ''timeout'']"
proof -
  have sched: "schedule example_schedule"
    by (simp add: schedule_def example_schedule_def insert_commute)
  have fails: "hr_select example_failed_responses = Inl (ServiceError ''timeout'') \<or>
      (\<exists>hs. hr_select example_failed_responses = Inr hs) \<and>
      hr_questions_select example_failed_responses = Inl (ServiceError ''timeout'')"
    by (simp add: example_failed_responses_def)
  show ?thesis
    by (rule conjI [OF sched conjI [OF fails reload_hr_error_unhandled [OF sched fails]]])
qed

text \<open>
  Claim C10. When the HR-entries read of a full reload fails, that reload leaves
  \<open>loading\<close> true, for every order of settling and whatever \<open>loading\<close> was before:
  \<open>refreshData\<close> sets it to true before the wait and sets it to false only when the
  wait did not fail. It stays true through the mutation operations, none of which
  writes it, and a later reload sets it to false exactly when that reload does not fail.
\<close>

theorem reload_hr_error_keeps_loading:
  assumes "schedule sched"
    and "hr_select rs = Inl e \<or> (\<exists>hs. hr_select rs = Inr hs) \<and> hr_questions_select rs = Inl e"
  shows "loading (snd (refreshData sched rs w)) = True \<and>
         loading (mount sched rs w) = True \<and>
         loading (fst (snd (addHREntry hrOutcome qOutcome entry (snd (refreshData sched rs w)) d))) = True \<and>
         loading (fst (snd (addQuestion outcome question (snd (refreshData sched rs w)) d))) = True \<and>
         loading (fst (snd (addAnswer outcome answer (snd (refreshData sched rs w)) d))) = True \<and>
         loading (fst (snd (addJob outcome job (snd (refreshData sched rs w)) d))) = True \<and>
         loading (snd (refreshData sched' rs' (snd (refreshData sched rs w)))) =
           (case fst (refreshData sched' rs' (snd (refreshData sched rs w))) of
              Inl e' \<Rightarrow> True
            | Inr u \<Rightarrow> False)"
proof -
  have r: "fst (refreshData sched rs w) = Inl e"
    using assms(2) by (auto simp add: refreshData_throws [OF assms(1)])
  have l: "loading (snd (refreshData sched rs w)) = True"
    using r by (simp add: refreshData_loading)
  have m: "loading (mount sched rs w) = True"
    using r l by (simp add: mount_unfold)
  show ?thesis
    using l m
    by (simp add: addHREntry_store addQuestion_loading addAnswer_loading addJob_loading
        refreshData_loading [of sched' rs'])
qed

theorem reload_hr_error_keeps_loading_witness:
  "schedule example_schedule \<and>
   (hr_select example_failed_responses = Inl (ServiceError ''timeout'') \<or>
    (\<exists>hs. hr_select example_failed_responses = Inr hs) \<and>
    hr_questions_select example_failed_responses = Inl (ServiceError ''timeout'')) \<and>
   loading (snd (refreshData example_schedule example_failed_responses
                   (initial_store\<lparr>loading := False\<rparr>))) = True \<and>
   loading (mount example_schedule example_failed_responses (initial_store\<lparr>loading := False\<rparr>)) = True"
proof -
  have sched: "schedule example_schedule"
    by (simp add: schedule_def example_schedule_def insert_commute)
  have fails: "hr_select example_failed_responses = Inl (ServiceError ''timeout'') \<or>
      (\<exists>hs. hr_select example_failed_responses = Inr hs) \<and>
      hr_questions_select example_failed_responses = Inl (ServiceError ''timeout'')"
    by (simp add: example_failed_responses_def)
  show ?thesis
    using sched fails
      reload_hr_error_keeps_loading [OF sched fails, of "initial_store\<lparr>loading := False\<rparr>"]
    by blast
qed

section \<open>Scenarios\<close>

text \<open>
  The spec's submission scenario, evaluated: one row in \<open>hr_entries\<close>, one linked row in
  \<open>questions\<close>, the store untouched.
\<close>

lemma scenario_submit_entry:
  "addHREntry (Inr (''h1'', ''t1'')) (Inr (\<lambda>i. (''q1'', ''t2''))) example_entry initial_store empty_db =
     (Inr (), initial_store,
      \<lparr>hr_entries_table =
         [\<lparr>da_name = ''A'', company_name = ''Acme'', hr_name = ''Bob'', hr_contact = ''555-0100'',
           hr_id = ''h1'', hr_created_at = ''t1''\<rparr>],
       questions_table =
         [\<lparr>q_text = ''Tell me about yourself'', topic = '''', asked_by = '''',
           hr_entry_id = Some ''h1'', q_id = ''q1'', q_created_at = ''t2''\<rparr>],
       answers_table = [], jobs_table = []\<rparr>)"
  by (simp add: addHREntry_def insert_defs stamp_defs example_entry_def empty_db_def)

text \<open>
  A reload whose \<open>fetchQuestions\<close> read fails: the entries are joined with their
  questions, the failure is logged, and \<open>loading\<close> ends false.
\<close>

lemma scenario_reload:
  "refreshData example_schedule example_responses initial_store =
     (Inr (),
      \<lparr>hrEntries =
         [\<lparr>da_name = ''A'', company_name = ''Acme'', hr_name = ''Bob'', hr_contact = ''555-0100'',
           hr_id = ''h1'', hr_created_at = ''t1'',
           hr_questions =
             [\<lparr>q_text = ''Tell me about yourself'', topic = '''', asked_by = '''',
               hr_entry_id = Some ''h1'', q_id = ''q1'', q_created_at = ''t1''\<rparr>]\<rparr>,
          \<lparr>da_name = ''B'', company_name = ''Globex'', hr_name = ''Eve'', hr_contact = ''555-0101'',
           hr_id = ''h2'', hr_created_at = ''t2'', hr_questions = []\<rparr>],
       questions = [], answers = [], jobs = [], loading = False,
       console = [(''Error fetching questions:'', ServiceError ''timeout'')],
       alerts = [], unhandled = []\<rparr>)"
  by (simp add: refreshData_def example_schedule_def example_responses_def example_hr_rows_def
      example_question_rows_def initial_store_def fetch_defs attach_questions_def
      hr_row.defs HREntry.defs)

text \<open>
  The same reload with the select on \<open>hr_entries\<close> failing, run by the mount effect:
  the entries stay empty, \<open>loading\<close> stays true, and the error is left unhandled.
\<close>

lemma scenario_mount_fails:
  "mount example_schedule example_failed_responses initial_store =
     \<lparr>hrEntries = [], questions = [], answers = [], jobs = [], loading = True,
      console = [(''Error fetching questions:'', ServiceError ''timeout'')],
      alerts = [], unhandled = [ServiceError ''timeout'']\<rparr>"
  by (simp add: mount_def refreshData_def example_schedule_def example_failed_responses_def
      example_responses_def initial_store_def fetch_defs)

end
